theory Spec2Isabelle
  imports Main "HOL-Library.Word" "HOL-Library.Sublist"
begin

unbundle bit_operations_syntax

section \<open>Source types (go/types) as the compiler sees them\<close>

text \<open>
  The compiler's interface lowering (\<^verbatim>\<open>src/src/os/os_test.go\<close>, lines 364 onwards:
  package compiler) works on \<^verbatim>\<open>go/types\<close> values. Only the parts that the code
  inspects are kept. A named type is identified by one string (its qualified name);
  its underlying type is found in the declarations of the program, because named types
  may be cyclic (\<^verbatim>\<open>type A *B; type B *A\<close>).
\<close>

datatype BasicKind =
    Invalid | Bool | IntKind | Int8 | Int16 | Int32 | Int64
  | Uint | Uint8 | Uint16 | Uint32 | Uint64 | Uintptr
  | Float32 | Float64 | Complex64 | Complex128 | String | UnsafePointer
  | UntypedBool | UntypedInt | UntypedRune | UntypedFloat | UntypedComplex
  | UntypedString | UntypedNil

datatype ChanDir = SendRecv | SendOnly | RecvOnly

text \<open>A method object (\<^verbatim>\<open>*types.Func\<close>): its name and the path of its package.\<close>

datatype Func_obj = Func (Name: string) (PkgPath: string)

text \<open>A struct field (\<^verbatim>\<open>*types.Var\<close> with the struct's tag for it).\<close>

datatype Field_var = Field (FieldName: string) (Embedded: bool) (Tag: string)

text \<open>
  \<open>Signature recv params results variadic\<close>: \<open>recv\<close> is the package path of the
  receiver variable when the signature has a receiver. \<open>Tuple\<close> stands for the types
  that none of the type switches of the compiler handles.
\<close>

datatype gtype =
    Basic BasicKind
  | Named string
  | Array int gtype
  | Chan ChanDir gtype
  | Interface "(Func_obj \<times> gtype) list"
  | Map gtype gtype
  | Pointer gtype
  | Signature "string option" "gtype list" "gtype list" bool
  | Slice gtype
  | Struct "(Field_var \<times> gtype) list"
  | Tuple "gtype list"

datatype error = Panic string

section \<open>The LLVM side: types, constants, globals, functions\<close>

text \<open>
  \<open>LLVMType t\<close> is \<^verbatim>\<open>c.getLLVMType(t)\<close>, \<open>RuntimeType n\<close> is
  \<^verbatim>\<open>c.getLLVMRuntimeType(n)\<close> and \<open>RawFuncType sig\<close> is \<^verbatim>\<open>c.getRawFuncType(sig)\<close>:
  these translations are not in the files at hand and stay symbolic.
\<close>

datatype linkage = ExternalLinkage | LinkOnceODRLinkage | InternalLinkage

text \<open>
  An LLVM value is a handle. A global is referred to by its position in the module's
  list of globals, a function by its name, the result of an instruction by its number.
  \<open>TypeOf v\<close> is \<^verbatim>\<open>v.Type()\<close>.
\<close>

datatype lltype =
    IntType nat
  | I8Ptr
  | UintptrType
  | VoidType
  | LLVMType gtype
  | RuntimeType string
  | RawFuncType gtype
  | FunctionType lltype "lltype list"
  | TypeOf llvalue
and llvalue =
    ConstInt lltype nat
  | ConstGEP nat "nat list"
  | GlobalRef nat
  | FunctionRef string
  | ConstBitCast llvalue lltype
  | ConstNull lltype
  | ConstString string bool
  | ConstArray lltype "llvalue list"
  | ConstStruct "llvalue list"
  | ConstNamedStruct lltype "llvalue list"
  | Undef lltype
  | Param nat
  | Inst nat

text \<open>
  \<open>GName\<close> is the name asked for; \<open>Renamed\<close> says that the name was taken when the
  global was added, so that LLVM gave it another one and a lookup of \<open>GName\<close> does not
  find it.
\<close>

record global =
  GName :: string
  Renamed :: bool
  GlobalValueType :: lltype
  Initializer :: "llvalue option"
  Linkage :: linkage
  GlobalConstant :: bool
  Alignment :: nat
  UnnamedAddr :: bool
  Metadata :: "string option"

datatype instr =
    ExtractValue llvalue nat string
  | InsertValue llvalue llvalue nat
  | Call llvalue "llvalue list" string
  | RuntimeCall string "llvalue list" string
  | PointerUnpack llvalue lltype
  | ExpandFormalParam llvalue
  | CondBr llvalue nat nat
  | Br nat
  | PHI lltype string "(llvalue \<times> nat) list"
  | Ret llvalue
  | RetVoid

datatype attrs_kind = NoStandardAttributes | StandardDeclaredAttributes | StandardAttributes

record llfunction =
  FName :: string
  FType :: lltype
  FStandardAttrs :: attrs_kind
  FStringAttrs :: "(string \<times> string) list"
  FLinkage :: linkage
  FUnnamedAddr :: bool
  FDebug :: "string option"
  FBody :: "(string \<times> (nat \<times> instr) list) list option"

record llmodule =
  globals :: "global list"
  funcs :: "llfunction list"

text \<open>
  The result of a compiler function that changes a state (the module, or the builder
  of a function): it runs out of fuel (the model of a run that does not end), panics,
  or returns a value and the new state.
\<close>

datatype ('a, 's) result = OutOfFuel | Panics error | Ok 'a 's

type_synonym ('a, 's) scomp = "'s \<Rightarrow> ('a, 's) result"
type_synonym 'a comp = "('a, llmodule) scomp"

definition ret :: "'a \<Rightarrow> ('a, 's) scomp" where
  "ret a m = Ok a m"

definition bind :: "('a, 's) scomp \<Rightarrow> ('a \<Rightarrow> ('b, 's) scomp) \<Rightarrow> ('b, 's) scomp" where
  "bind f g m = (case f m of OutOfFuel \<Rightarrow> OutOfFuel | Panics e \<Rightarrow> Panics e | Ok a m' \<Rightarrow> g a m')"

definition panic :: "string \<Rightarrow> ('a, 's) scomp" where
  "panic s m = Panics (Panic s)"

definition lift :: "error + 'a \<Rightarrow> ('a, 's) scomp" where
  "lift r m = (case r of Inl e \<Rightarrow> Panics e | Inr a \<Rightarrow> Ok a m)"

fun lookup_idx :: "('a \<Rightarrow> bool) \<Rightarrow> 'a list \<Rightarrow> nat option" where
  "lookup_idx P [] = None"
| "lookup_idx P (x # xs) = (if P x then Some 0 else map_option Suc (lookup_idx P xs))"

definition NamedGlobal :: "llmodule \<Rightarrow> string \<Rightarrow> nat option" where
  "NamedGlobal m name = lookup_idx (\<lambda>g. GName g = name \<and> \<not> Renamed g) (globals m)"

definition NamedFunction :: "llmodule \<Rightarrow> string \<Rightarrow> llfunction option" where
  "NamedFunction m name = find (\<lambda>f. FName f = name) (funcs m)"

definition new_global :: "llmodule \<Rightarrow> lltype \<Rightarrow> string \<Rightarrow> global" where
  "new_global m ty name =
     \<lparr> GName = name, Renamed = (NamedGlobal m name \<noteq> None), GlobalValueType = ty,
       Initializer = None, Linkage = ExternalLinkage, GlobalConstant = False,
       Alignment = 0, UnnamedAddr = False, Metadata = None \<rparr>"

text \<open>
  \<^verbatim>\<open>llvm.AddGlobal\<close> followed by the setters that the code calls on the new global
  before anything else happens: \<open>init\<close> are those setters. The handle is returned.
\<close>

definition AddGlobal :: "lltype \<Rightarrow> string \<Rightarrow> (global \<Rightarrow> global) \<Rightarrow> nat comp" where
  "AddGlobal ty name init m =
     Ok (length (globals m)) (m\<lparr>globals := globals m @ [init (new_global m ty name)]\<rparr>)"

definition update_global :: "nat \<Rightarrow> (global \<Rightarrow> global) \<Rightarrow> unit comp" where
  "update_global h f m = Ok () (m\<lparr>globals := (globals m)[h := f (globals m ! h)]\<rparr>)"

definition AddFunction :: "llfunction \<Rightarrow> llvalue comp" where
  "AddFunction f m = Ok (FunctionRef (FName f)) (m\<lparr>funcs := funcs m @ [f]\<rparr>)"

definition new_function :: "string \<Rightarrow> lltype \<Rightarrow> llfunction" where
  "new_function name ty =
     \<lparr> FName = name, FType = ty, FStandardAttrs = NoStandardAttributes, FStringAttrs = [],
       FLinkage = ExternalLinkage, FUnnamedAddr = False, FDebug = None, FBody = None \<rparr>"

section \<open>What the compiler takes from its collaborators\<close>

text \<open>
  The front end (\<^verbatim>\<open>go/types\<close>, \<^verbatim>\<open>go/token\<close>, \<^verbatim>\<open>strconv\<close>, the SSA program) and
  the parts of the compiler that are in other files. \<open>decls\<close> gives the underlying type
  of every named type; a method set is a list of method objects with their signatures.
\<close>

record ssa_function =
  linkName :: string
  RecvType :: gtype

record compilerContext =
  decls :: "(string \<times> gtype) list"
  TypeString :: "gtype \<Rightarrow> string"
  IsExported :: "string \<Rightarrow> bool"
  Quote :: "string \<Rightarrow> string"
  MethodSets :: "gtype \<Rightarrow> (Func_obj \<times> gtype) list"
  MethodValue :: "Func_obj \<times> gtype \<Rightarrow> ssa_function"
  getFunction :: "ssa_function \<Rightarrow> (lltype \<times> lltype list) \<times> string option"
  expandFormalParamType :: "lltype \<Rightarrow> lltype list"
  IsPointerTypeKind :: "lltype \<Rightarrow> bool"
  IsVoidTypeKind :: "lltype \<Rightarrow> bool"
  TypeAllocSize :: "lltype \<Rightarrow> nat"
  Debug :: bool

fun Underlying :: "compilerContext \<Rightarrow> gtype \<Rightarrow> gtype" where
  "Underlying c (Named n) = (case map_of (decls c) n of Some u \<Rightarrow> u | None \<Rightarrow> Basic Invalid)"
| "Underlying c t = t"

fun isInterface :: "gtype \<Rightarrow> bool" where
  "isInterface (Interface ms) = True"
| "isInterface t = False"

section \<open>Kinds and names of types\<close>

text \<open>
  \<^verbatim>\<open>basicTypes\<close> and \<^verbatim>\<open>basicTypeNames\<close> are arrays indexed by the kind; their last
  index is \<^verbatim>\<open>types.UnsafePointer\<close>, so an untyped kind is out of range (a run-time
  panic) and \<^verbatim>\<open>types.Invalid\<close> reads the zero value.
\<close>

fun basicTypes :: "BasicKind \<Rightarrow> error + 8 word" where
  "basicTypes Invalid = Inr 0"
| "basicTypes Bool = Inr 1"
| "basicTypes IntKind = Inr 2"
| "basicTypes Int8 = Inr 3"
| "basicTypes Int16 = Inr 4"
| "basicTypes Int32 = Inr 5"
| "basicTypes Int64 = Inr 6"
| "basicTypes Uint = Inr 7"
| "basicTypes Uint8 = Inr 8"
| "basicTypes Uint16 = Inr 9"
| "basicTypes Uint32 = Inr 10"
| "basicTypes Uint64 = Inr 11"
| "basicTypes Uintptr = Inr 12"
| "basicTypes Float32 = Inr 13"
| "basicTypes Float64 = Inr 14"
| "basicTypes Complex64 = Inr 15"
| "basicTypes Complex128 = Inr 16"
| "basicTypes String = Inr 17"
| "basicTypes UnsafePointer = Inr 18"
| "basicTypes k = Inl (Panic ''index out of range'')"

fun basicTypeNames :: "BasicKind \<Rightarrow> error + string" where
  "basicTypeNames Invalid = Inr ''''"
| "basicTypeNames Bool = Inr ''bool''"
| "basicTypeNames IntKind = Inr ''int''"
| "basicTypeNames Int8 = Inr ''int8''"
| "basicTypeNames Int16 = Inr ''int16''"
| "basicTypeNames Int32 = Inr ''int32''"
| "basicTypeNames Int64 = Inr ''int64''"
| "basicTypeNames Uint = Inr ''uint''"
| "basicTypeNames Uint8 = Inr ''uint8''"
| "basicTypeNames Uint16 = Inr ''uint16''"
| "basicTypeNames Uint32 = Inr ''uint32''"
| "basicTypeNames Uint64 = Inr ''uint64''"
| "basicTypeNames Uintptr = Inr ''uintptr''"
| "basicTypeNames Float32 = Inr ''float32''"
| "basicTypeNames Float64 = Inr ''float64''"
| "basicTypeNames Complex64 = Inr ''complex64''"
| "basicTypeNames Complex128 = Inr ''complex128''"
| "basicTypeNames String = Inr ''string''"
| "basicTypeNames UnsafePointer = Inr ''unsafe.Pointer''"
| "basicTypeNames k = Inl (Panic ''index out of range'')"

text \<open>\<^verbatim>\<open>getTypeKind\<close>: the kind of the underlying type, as defined by reflect.Kind.\<close>

definition getTypeKind :: "compilerContext \<Rightarrow> gtype \<Rightarrow> error + 8 word" where
  "getTypeKind c t =
     (case Underlying c t of
        Basic k \<Rightarrow> basicTypes k
      | Chan d e \<Rightarrow> Inr 19
      | Interface ms \<Rightarrow> Inr 20
      | Pointer e \<Rightarrow> Inr 21
      | Slice e \<Rightarrow> Inr 22
      | Array l e \<Rightarrow> Inr 23
      | Signature r ps rs v \<Rightarrow> Inr 24
      | Map k e \<Rightarrow> Inr 25
      | Struct fs \<Rightarrow> Inr 26
      | _ \<Rightarrow> Inl (Panic ''unknown type''))"

text \<open>\<^verbatim>\<open>strings.Join\<close> and \<^verbatim>\<open>strconv.FormatInt(i, 10)\<close>.\<close>

fun Join :: "string list \<Rightarrow> string \<Rightarrow> string" where
  "Join [] sep = []"
| "Join [x] sep = x"
| "Join (x # y # ys) sep = x @ sep @ Join (y # ys) sep"

fun digits :: "nat \<Rightarrow> string" where
  "digits n = (if n < 10 then [char_of (48 + n)]
               else digits (n div 10) @ [char_of (48 + n mod 10)])"

definition FormatInt :: "int \<Rightarrow> string" where
  "FormatInt i = (if i < 0 then CHR ''-'' # digits (nat (- i)) else digits (nat i))"

text \<open>A loop that fills a slice from calls that may panic stops at the first panic.\<close>

fun mapE :: "('a \<Rightarrow> error + 'b) \<Rightarrow> 'a list \<Rightarrow> error + 'b list" where
  "mapE f [] = Inr []"
| "mapE f (x # xs) =
     (case f x of Inl e \<Rightarrow> Inl e
      | Inr y \<Rightarrow> (case mapE f xs of Inl e \<Rightarrow> Inl e | Inr ys \<Rightarrow> Inr (y # ys)))"

lemma mapE_cong [fundef_cong]:
  "xs = ys \<Longrightarrow> (\<And>x. x \<in> set ys \<Longrightarrow> f x = g x) \<Longrightarrow> mapE f xs = mapE g ys"
  by (induction ys arbitrary: xs) (auto split: sum.splits)

definition bindE :: "error + 'a \<Rightarrow> ('a \<Rightarrow> error + 'b) \<Rightarrow> error + 'b" where
  "bindE r f = (case r of Inl e \<Rightarrow> Inl e | Inr a \<Rightarrow> f a)"

lemma bindE_cong [fundef_cong]:
  "r = r' \<Longrightarrow> (\<And>a. r' = Inr a \<Longrightarrow> f a = g a) \<Longrightarrow> bindE r f = bindE r' g"
  by (auto simp: bindE_def split: sum.splits)

text \<open>
  \<^verbatim>\<open>getTypeCodeName\<close>: the name of a type in the interface lowering pass, from which
  the names of the descriptor globals are made.
\<close>

fun getTypeCodeName :: "compilerContext \<Rightarrow> gtype \<Rightarrow> error + string" where
  "getTypeCodeName c (Named n) = Inr (''named:'' @ TypeString c (Named n))"
| "getTypeCodeName c (Array l e) =
     bindE (getTypeCodeName c e) (\<lambda>s. Inr (''array:'' @ FormatInt l @ '':'' @ s))"
| "getTypeCodeName c (Basic k) =
     bindE (basicTypeNames k) (\<lambda>s. Inr (''basic:'' @ s))"
| "getTypeCodeName c (Chan d e) =
     bindE (getTypeCodeName c e) (\<lambda>s. Inr (''chan:'' @ s))"
| "getTypeCodeName c (Interface ms) =
     bindE (mapE (\<lambda>(f, t).
              let name = Name f;
                  name = (if \<not> IsExported c name then PkgPath f @ ''.'' @ name else name)
              in bindE (getTypeCodeName c t) (\<lambda>s. Inr (name @ '':'' @ s))) ms)
       (\<lambda>methods. Inr (''interface:'' @ ''{'' @ Join methods '','' @ ''}''))"
| "getTypeCodeName c (Map k e) =
     bindE (getTypeCodeName c k) (\<lambda>keyType.
     bindE (getTypeCodeName c e) (\<lambda>elemType.
       Inr (''map:'' @ ''{'' @ keyType @ '','' @ elemType @ ''}'')))"
| "getTypeCodeName c (Pointer e) =
     bindE (getTypeCodeName c e) (\<lambda>s. Inr (''pointer:'' @ s))"
| "getTypeCodeName c (Signature r ps rs v) =
     bindE (mapE (getTypeCodeName c) ps) (\<lambda>params.
     bindE (mapE (getTypeCodeName c) rs) (\<lambda>results.
       Inr (''func:'' @ ''{'' @ Join params '','' @ ''}{'' @ Join results '','' @ ''}'')))"
| "getTypeCodeName c (Slice e) =
     bindE (getTypeCodeName c e) (\<lambda>s. Inr (''slice:'' @ s))"
| "getTypeCodeName c (Struct fs) =
     bindE (mapE (\<lambda>(f, t).
              let embedded = (if Embedded f then ''#'' else '''')
              in bindE (getTypeCodeName c t) (\<lambda>s.
                   let elem = embedded @ FieldName f @ '':'' @ s
                   in Inr (if Tag f \<noteq> '''' then elem @ [CHR 0x60] @ Tag f @ [CHR 0x60] else elem))) fs)
       (\<lambda>elems. Inr (''struct:'' @ ''{'' @ Join elems '','' @ ''}''))"
| "getTypeCodeName c (Tuple ts) = Inl (Panic (''unknown type: '' @ TypeString c (Tuple ts)))"

section \<open>Method signatures\<close>

text \<open>
  \<^verbatim>\<open>typestring\<close> and \<^verbatim>\<open>signature\<close>: the readable form of a type used to match
  interfaces. A caller of \<open>signature\<close> asserts that the type of the method is a
  signature (\<^verbatim>\<open>method.Type().(*types.Signature)\<close>); the assertion panics otherwise.
\<close>

fun typestring :: "compilerContext \<Rightarrow> gtype \<Rightarrow> error + string"
and signature :: "compilerContext \<Rightarrow> gtype \<Rightarrow> error + string" where
  "typestring c (Array l e) =
     bindE (typestring c e) (\<lambda>s. Inr (''['' @ FormatInt l @ '']'' @ s))"
| "typestring c (Basic k) = basicTypeNames k"
| "typestring c (Chan d e) =
     bindE (typestring c e) (\<lambda>s. Inr
       (case d of SendRecv \<Rightarrow> ''chan ('' @ s @ '')''
        | SendOnly \<Rightarrow> ''chan<- ('' @ s @ '')''
        | RecvOnly \<Rightarrow> ''<-chan ('' @ s @ '')''))"
| "typestring c (Interface ms) =
     bindE (mapE (\<lambda>(f, t). bindE (signature c t) (\<lambda>s. Inr (Name f @ s))) ms)
       (\<lambda>methods. Inr (''interface{'' @ Join methods '';'' @ ''}''))"
| "typestring c (Map k e) =
     bindE (typestring c k) (\<lambda>ks. bindE (typestring c e) (\<lambda>es. Inr (''map['' @ ks @ '']'' @ es)))"
| "typestring c (Named n) = Inr (TypeString c (Named n))"
| "typestring c (Pointer e) = bindE (typestring c e) (\<lambda>s. Inr (''*'' @ s))"
| "typestring c (Signature r ps rs v) =
     bindE (signature c (Signature r ps rs v)) (\<lambda>s. Inr (''func'' @ s))"
| "typestring c (Slice e) = bindE (typestring c e) (\<lambda>s. Inr (''[]'' @ s))"
| "typestring c (Struct fs) =
     bindE (mapE (\<lambda>(f, t). bindE (typestring c t) (\<lambda>s.
              let field = FieldName f @ '' '' @ s
              in Inr (if Tag f \<noteq> [] then field @ '' '' @ Quote c (Tag f) else field))) fs)
       (\<lambda>fields. Inr (''struct{'' @ Join fields '';'' @ ''}''))"
| "typestring c (Tuple ts) = Inl (Panic (''unknown type: '' @ TypeString c (Tuple ts)))"
| "signature c (Signature r ps rs v) =
     bindE (mapE (typestring c) ps) (\<lambda>params.
       let s = (if length ps = 0 then ''()'' else ''('' @ Join params '', '' @ '')'')
       in bindE (mapE (typestring c) rs) (\<lambda>results.
            Inr (if length rs = 0 then s
                 else if length rs = 1 then s @ '' '' @ hd results
                 else s @ '' ('' @ Join results '', '' @ '')'')))"
| "signature c t = Inl (Panic ''interface conversion: types.Type is not *types.Signature'')"

definition methodSignature :: "compilerContext \<Rightarrow> Func_obj \<times> gtype \<Rightarrow> error + string" where
  "methodSignature c method = bindE (signature c (snd method)) (\<lambda>s. Inr (Name (fst method) @ s))"

text \<open>
  \<^verbatim>\<open>getMethodSignatureName\<close>. For a method that is not exported the package of the
  receiver is read; without a receiver that is a nil dereference.
\<close>

definition getMethodSignatureName :: "compilerContext \<Rightarrow> Func_obj \<times> gtype \<Rightarrow> error + string" where
  "getMethodSignatureName c method =
     bindE (methodSignature c method) (\<lambda>signature.
       if IsExported c (Name (fst method)) then Inr (''reflect/methods.'' @ signature)
       else (case snd method of
               Signature (Some path) ps rs v \<Rightarrow> Inr (path @ ''.$methods.'' @ signature)
             | _ \<Rightarrow> Inl (Panic ''nil pointer dereference'')))"

definition getMethodsString :: "compilerContext \<Rightarrow> (Func_obj \<times> gtype) list \<Rightarrow> error + string" where
  "getMethodsString c itf =
     bindE (mapE (getMethodSignatureName c) itf) (\<lambda>methods. Inr (Join methods ''; ''))"

section \<open>Method sets\<close>

definition getMethodSignature :: "compilerContext \<Rightarrow> Func_obj \<times> gtype \<Rightarrow> llvalue comp" where
  "getMethodSignature c method =
     bind (lift (getMethodSignatureName c method)) (\<lambda>globalName m.
       case NamedGlobal m globalName of
         Some signatureGlobal \<Rightarrow> Ok (GlobalRef signatureGlobal) m
       | None \<Rightarrow>
           bind (AddGlobal (IntType 8) globalName
                   (\<lambda>g. g\<lparr>Initializer := Some (ConstInt (IntType 8) 0),
                            Linkage := LinkOnceODRLinkage, GlobalConstant := True,
                            Alignment := 1\<rparr>))
             (\<lambda>signatureGlobal. ret (GlobalRef signatureGlobal)) m)"

text \<open>
  \<^verbatim>\<open>getInterfaceInvokeWrapper\<close>. \<open>llvmFnType\<close> is the return type and the parameter
  types of the method, \<open>llvmFn\<close> the name of its LLVM function. The body of the wrapper
  is one entry block.
\<close>

definition getInterfaceInvokeWrapper ::
  "compilerContext \<Rightarrow> ssa_function \<Rightarrow> lltype \<times> lltype list \<Rightarrow> string \<Rightarrow> llvalue comp" where
  "getInterfaceInvokeWrapper c fn llvmFnType llvmFn m =
     (let wrapperName = llvmFn @ ''$invoke'' in
      case NamedFunction m wrapperName of
        Some wrapper \<Rightarrow> Ok (FunctionRef (FName wrapper)) m
      | None \<Rightarrow>
         (let receiverType = LLVMType (RecvType fn);
              expandedReceiverType = expandFormalParamType c receiverType
          in if length expandedReceiverType = 1 \<and> IsPointerTypeKind c receiverType
             then Ok (FunctionRef llvmFn) m
             else if length expandedReceiverType > length (snd llvmFnType)
             then Panics (Panic ''slice bounds out of range'')
             else
               (let paramTypes = I8Ptr # drop (length expandedReceiverType) (snd llvmFnType);
                    wrapFnType = FunctionType (fst llvmFnType) paramTypes;
                    params = Inst 1 # map Param [1..<length paramTypes];
                    body = [(0, PointerUnpack (Param 0) receiverType),
                            (1, ExpandFormalParam (Inst 0))] @
                           (if IsVoidTypeKind c (fst llvmFnType)
                            then [(2, Call (FunctionRef llvmFn) params []), (3, RetVoid)]
                            else [(2, Call (FunctionRef llvmFn) params ''ret''), (3, Ret (Inst 2))])
                in AddFunction
                     ((new_function wrapperName wrapFnType)
                        \<lparr>FStandardAttrs := StandardAttributes,
                         FLinkage := LinkOnceODRLinkage, FUnnamedAddr := True,
                         FDebug := (if Debug c then Some ''$invoke'' else None),
                         FBody := Some [(''entry'', body)]\<rparr>) m)))"

text \<open>The loop of \<^verbatim>\<open>getTypeMethodSet\<close> over the method set.\<close>

primrec methodSetEntries ::
  "compilerContext \<Rightarrow> (Func_obj \<times> gtype) list \<Rightarrow> (llvalue list \<times> llvalue list) comp" where
  "methodSetEntries c [] = ret ([], [])"
| "methodSetEntries c (method # rest) =
     bind (getMethodSignature c method) (\<lambda>signatureGlobal.
       let fn = MethodValue c method;
           llvmFnType = fst (getFunction c fn)
       in bind (case snd (getFunction c fn) of
                  None \<Rightarrow> panic (''cannot find function: '' @ linkName fn)
                | Some llvmFn \<Rightarrow> getInterfaceInvokeWrapper c fn llvmFnType llvmFn)
            (\<lambda>wrapper.
               bind (methodSetEntries c rest) (\<lambda>sw.
                 ret (signatureGlobal # fst sw, wrapper # snd sw))))"

definition getTypeMethodSet :: "compilerContext \<Rightarrow> gtype \<Rightarrow> llvalue comp" where
  "getTypeMethodSet c typ m =
     (let globalName = TypeString c typ @ ''$methodset'' in
      case NamedGlobal m globalName of
        Some global \<Rightarrow> Ok (GlobalRef global) m
      | None \<Rightarrow>
          (let ms = MethodSets c typ in
           bind (methodSetEntries c ms) (\<lambda>sw.
             let globalValue = ConstStruct
                   [ConstInt UintptrType (length ms),
                    ConstArray I8Ptr (fst sw),
                    ConstStruct (snd sw)]
             in bind (AddGlobal (TypeOf globalValue) globalName
                        (\<lambda>g. g\<lparr>Initializer := Some globalValue, GlobalConstant := True,
                                 UnnamedAddr := True, Linkage := LinkOnceODRLinkage\<rparr>))
                  (\<lambda>global. ret (GlobalRef global))) m))"

section \<open>Type descriptors\<close>

text \<open>
  \<^verbatim>\<open>string(flags)\<close> converts an integer to the UTF-8 encoding of that code point:
  one byte below 128, two bytes for the other values of a \<^verbatim>\<open>uint8\<close>.
\<close>

definition string_of_uint8 :: "8 word \<Rightarrow> string" where
  "string_of_uint8 v =
     (if v < 128 then [char_of (unat v)]
      else [char_of (unat (192 OR drop_bit 6 v)), char_of (unat (128 OR (v AND 63)))])"

definition hasMethodSet :: "compilerContext \<Rightarrow> gtype \<Rightarrow> bool" where
  "hasMethodSet c typ =
     (let ms = MethodSets c typ;
          hasMethodSet = (length ms \<noteq> 0)
      in if isInterface (Underlying c typ) then False else hasMethodSet)"

definition NewVar :: "string \<Rightarrow> gtype \<Rightarrow> Field_var \<times> gtype" where
  "NewVar name t = (Field name False [], t)"

text \<open>The fields of the Go struct type from which the LLVM type of the global is made.\<close>

definition typeFieldTypes :: "compilerContext \<Rightarrow> gtype \<Rightarrow> (Field_var \<times> gtype) list" where
  "typeFieldTypes c typ =
     (let typeFieldTypes = [NewVar ''kind'' (Basic Int8)];
          typeFieldTypes =
            (case typ of
               Basic k \<Rightarrow> typeFieldTypes @ [NewVar ''ptrTo'' (Basic UnsafePointer)]
             | Named n \<Rightarrow> typeFieldTypes @
                 [NewVar ''ptrTo'' (Basic UnsafePointer),
                  NewVar ''underlying'' (Basic UnsafePointer)]
             | Chan d e \<Rightarrow> typeFieldTypes @
                 [NewVar ''ptrTo'' (Basic UnsafePointer),
                  NewVar ''elementType'' (Basic UnsafePointer)]
             | Slice e \<Rightarrow> typeFieldTypes @
                 [NewVar ''ptrTo'' (Basic UnsafePointer),
                  NewVar ''elementType'' (Basic UnsafePointer)]
             | Pointer e \<Rightarrow> typeFieldTypes @ [NewVar ''elementType'' (Basic UnsafePointer)]
             | Array l e \<Rightarrow> typeFieldTypes @
                 [NewVar ''ptrTo'' (Basic UnsafePointer),
                  NewVar ''elementType'' (Basic UnsafePointer),
                  NewVar ''length'' (Basic Uintptr)]
             | Map k e \<Rightarrow> typeFieldTypes @ [NewVar ''ptrTo'' (Basic UnsafePointer)]
             | Struct fs \<Rightarrow> typeFieldTypes @
                 [NewVar ''numFields'' (Basic Uint16),
                  NewVar ''ptrTo'' (Basic UnsafePointer),
                  NewVar ''fields'' (Array (int (length fs)) (Named ''runtime.structField''))]
             | Interface ms \<Rightarrow> typeFieldTypes @ [NewVar ''ptrTo'' (Basic UnsafePointer)]
             | Signature r ps rs v \<Rightarrow> typeFieldTypes @ [NewVar ''ptrTo'' (Basic UnsafePointer)]
             | Tuple ts \<Rightarrow> typeFieldTypes)
      in if hasMethodSet c typ
         then NewVar ''methodSet'' (Basic UnsafePointer) # typeFieldTypes
         else typeFieldTypes)"

text \<open>
  The data of a struct field, as the loop over the fields of a struct builds it: the
  flags, the name and, when there is a tag, a zero byte and the tag.
\<close>

definition fieldFlags :: "compilerContext \<Rightarrow> Field_var \<Rightarrow> 8 word" where
  "fieldFlags c field =
     (let flags = (0 :: 8 word);
          flags = (if Embedded field then flags OR 1 else flags);
          flags = (if Tag field \<noteq> [] then flags OR 2 else flags);
          flags = (if IsExported c (FieldName field) then flags OR 4 else flags)
      in flags)"

definition fieldData :: "compilerContext \<Rightarrow> Field_var \<Rightarrow> string" where
  "fieldData c field =
     (let flags = fieldFlags c field;
          data = string_of_uint8 flags @ FieldName field;
          data = (if Tag field \<noteq> [] then data @ [CHR 0x00] @ Tag field else data)
      in data)"

text \<open>
  The loop over the fields of a struct: the data global of the field, then the type
  code of its type. \<open>rec\<close> is \<^verbatim>\<open>c.getTypeCode\<close>.
\<close>

primrec structFields ::
  "(gtype \<Rightarrow> llvalue comp) \<Rightarrow> compilerContext \<Rightarrow> string \<Rightarrow> (Field_var \<times> gtype) list
     \<Rightarrow> llvalue list comp" where
  "structFields rec c globalName [] = ret []"
| "structFields rec c globalName (ft # rest) =
     (let field = fst ft;
          dataInitializer = ConstString (fieldData c field) True
      in bind (AddGlobal (TypeOf dataInitializer) (globalName @ ''.'' @ FieldName field)
                 (\<lambda>g. g\<lparr>Initializer := Some dataInitializer, Alignment := 1,
                          UnnamedAddr := True, Linkage := InternalLinkage,
                          GlobalConstant := True\<rparr>))
           (\<lambda>dataGlobal.
              bind (rec (snd ft)) (\<lambda>fieldType.
                bind (structFields rec c globalName rest) (\<lambda>fields.
                  ret (ConstNamedStruct (RuntimeType ''structField'')
                         [fieldType, ConstGEP dataGlobal [0, 0]] # fields)))))"

text \<open>\<^verbatim>\<open>uint64(i)\<close> of an \<^verbatim>\<open>int64\<close> or \<^verbatim>\<open>int\<close>.\<close>

definition uint64 :: "int \<Rightarrow> nat" where
  "uint64 i = nat (i mod 2 ^ 64)"

text \<open>The second type switch of \<^verbatim>\<open>getTypeCode\<close>: the fields after the meta byte.\<close>

definition typeFields ::
  "(gtype \<Rightarrow> llvalue comp) \<Rightarrow> compilerContext \<Rightarrow> string \<Rightarrow> gtype \<Rightarrow> llvalue list comp" where
  "typeFields rec c globalName typ =
     (case typ of
        Basic k \<Rightarrow> bind (rec (Pointer typ)) (\<lambda>ptrTo. ret [ptrTo])
      | Named n \<Rightarrow>
          bind (rec (Pointer typ)) (\<lambda>ptrTo.
          bind (rec (Underlying c typ)) (\<lambda>underlying. ret [ptrTo, underlying]))
      | Chan d e \<Rightarrow>
          bind (rec (Pointer typ)) (\<lambda>ptrTo.
          bind (rec e) (\<lambda>elementType. ret [ptrTo, elementType]))
      | Slice e \<Rightarrow>
          bind (rec (Pointer typ)) (\<lambda>ptrTo.
          bind (rec e) (\<lambda>elementType. ret [ptrTo, elementType]))
      | Pointer e \<Rightarrow> bind (rec e) (\<lambda>elementType. ret [elementType])
      | Array l e \<Rightarrow>
          bind (rec (Pointer typ)) (\<lambda>ptrTo.
          bind (rec e) (\<lambda>elementType.
            ret [ptrTo, elementType, ConstInt UintptrType (uint64 l)]))
      | Map k e \<Rightarrow> bind (rec (Pointer typ)) (\<lambda>ptrTo. ret [ptrTo])
      | Struct fs \<Rightarrow>
          bind (rec (Pointer typ)) (\<lambda>ptrTo.
          bind (structFields rec c globalName fs) (\<lambda>fields.
            ret [ConstInt (IntType 16) (uint64 (int (length fs))), ptrTo,
                 ConstArray (RuntimeType ''structField'') fields]))
      | Interface ms \<Rightarrow> bind (rec (Pointer typ)) (\<lambda>ptrTo. ret [ptrTo])
      | Signature r ps rs v \<Rightarrow> bind (rec (Pointer typ)) (\<lambda>ptrTo. ret [ptrTo])
      | Tuple ts \<Rightarrow> ret [])"

text \<open>The meta byte: the kind, with the "named" flag for a named type.\<close>

definition metabyte_of :: "gtype \<Rightarrow> 8 word \<Rightarrow> 8 word" where
  "metabyte_of typ kind = (case typ of Named n \<Rightarrow> kind OR push_bit 5 1 | _ \<Rightarrow> kind)"

text \<open>The name of the global that describes the type with the given name.\<close>

definition typeGlobalName :: "string \<Rightarrow> string" where
  "typeGlobalName name = ''reflect/types.type:'' @ name"

text \<open>The setters that \<^verbatim>\<open>getTypeCode\<close> calls on the global once its fields are known.\<close>

definition descriptor_init :: "compilerContext \<Rightarrow> gtype \<Rightarrow> llvalue list \<Rightarrow> global \<Rightarrow> global" where
  "descriptor_init c typ vs g =
     g\<lparr>Initializer := Some (ConstStruct vs),
       Linkage := LinkOnceODRLinkage,
       GlobalConstant := True,
       Alignment := TypeAllocSize c I8Ptr,
       Metadata := (if Debug c then Some (''type '' @ TypeString c typ) else Metadata g)\<rparr>"

text \<open>
  One call of \<^verbatim>\<open>getTypeCode\<close>, with \<open>rec\<close> for its recursive calls. The global is
  looked up by name; when there is none it is added without an initializer, the type
  codes of the types it refers to are made, and the initializer is set last.
\<close>

definition getTypeCode_body ::
  "(gtype \<Rightarrow> llvalue comp) \<Rightarrow> compilerContext \<Rightarrow> gtype \<Rightarrow> llvalue comp" where
  "getTypeCode_body rec c typ =
     bind (lift (getTypeCodeName c typ)) (\<lambda>name.
       let globalName = typeGlobalName name in
       bind (\<lambda>m. case NamedGlobal m globalName of
                    Some global \<Rightarrow> Ok global m
                  | None \<Rightarrow>
                      bind (AddGlobal (LLVMType (Struct (typeFieldTypes c typ))) globalName id)
                        (\<lambda>global.
                      bind (lift (getTypeKind c typ)) (\<lambda>kind.
                      bind (typeFields rec c globalName typ) (\<lambda>typeFields.
                      let metabyte = metabyte_of typ kind;
                          typeFields = ConstInt (IntType 8) (unat metabyte) # typeFields
                      in bind (if hasMethodSet c typ
                               then bind (getTypeMethodSet c typ) (\<lambda>methodSet.
                                      ret (ConstBitCast methodSet I8Ptr # typeFields))
                               else ret typeFields) (\<lambda>typeFields.
                         bind (update_global global (descriptor_init c typ typeFields))
                           (\<lambda>u. ret global))))) m)
         (\<lambda>global. ret (ConstGEP global [0, if hasMethodSet c typ then 1 else 0])))"

text \<open>
  \<^verbatim>\<open>getTypeCode\<close>. The recursion of the code is not structural (it ends because the
  module remembers what was made), so the depth of the calls is bounded by fuel and a
  call that would go deeper returns \<open>OutOfFuel\<close>.
\<close>

primrec getTypeCode :: "nat \<Rightarrow> compilerContext \<Rightarrow> gtype \<Rightarrow> llvalue comp" where
  "getTypeCode 0 c typ = (\<lambda>m. OutOfFuel)"
| "getTypeCode (Suc n) c typ = getTypeCode_body (\<lambda>t. getTypeCode n c t) c typ"

section \<open>Type asserts and interface calls\<close>

text \<open>
  \<^verbatim>\<open>getInterfaceImplementsFunc\<close>: the declared function that stands for a type
  switch. \<^verbatim>\<open>assertedType.Underlying().(*types.Interface)\<close> panics on another type.
\<close>

definition getInterfaceImplementsFunc :: "compilerContext \<Rightarrow> gtype \<Rightarrow> llvalue comp" where
  "getInterfaceImplementsFunc c assertedType =
     bind (lift (getTypeCodeName c (Underlying c assertedType))) (\<lambda>name m.
       let fnName = name @ ''.$typeassert'' in
       case NamedFunction m fnName of
         Some llvmFn \<Rightarrow> Ok (FunctionRef (FName llvmFn)) m
       | None \<Rightarrow>
           (let llvmFnType = FunctionType (IntType 1) [I8Ptr] in
            bind (lift (case Underlying c assertedType of
                          Interface itf \<Rightarrow> getMethodsString c itf
                        | _ \<Rightarrow> Inl (Panic ''interface conversion: types.Type is not *types.Interface'')))
              (\<lambda>methods.
                 AddFunction ((new_function fnName llvmFnType)
                   \<lparr>FStandardAttrs := StandardDeclaredAttributes,
                    FStringAttrs := [(''tinygo-methods'', methods)]\<rparr>)) m))"



text \<open>
  The builder of one function: the module, the basic blocks (a label and the numbered
  instructions), the block where instructions are inserted, the SSA block being
  compiled with the exits of the SSA blocks, and the number of the next instruction.
  A basic block is referred to by its position.
\<close>

record builder =
  bmod :: llmodule
  blocks :: "(string \<times> (nat \<times> instr) list) list"
  insertBlock :: nat
  currentBlock :: nat
  blockExits :: "(nat \<times> nat) list"
  nextInst :: nat

type_synonym 'a bcomp = "('a, builder) scomp"

definition emit :: "instr \<Rightarrow> llvalue bcomp" where
  "emit i b =
     Ok (Inst (nextInst b))
        (b\<lparr>blocks := (blocks b)[insertBlock b :=
               (fst (blocks b ! insertBlock b),
                snd (blocks b ! insertBlock b) @ [(nextInst b, i)])],
           nextInst := Suc (nextInst b)\<rparr>)"

definition insertBasicBlock :: "string \<Rightarrow> nat bcomp" where
  "insertBasicBlock name b = Ok (length (blocks b)) (b\<lparr>blocks := blocks b @ [(name, [])]\<rparr>)"

definition SetInsertPointAtEnd :: "nat \<Rightarrow> unit bcomp" where
  "SetInsertPointAtEnd block b = Ok () (b\<lparr>insertBlock := block\<rparr>)"

definition GetInsertBlock :: "nat bcomp" where
  "GetInsertBlock b = Ok (insertBlock b) b"

definition setBlockExit :: "nat \<Rightarrow> unit bcomp" where
  "setBlockExit block b = Ok () (b\<lparr>blockExits := (currentBlock b, block) # blockExits b\<rparr>)"

text \<open>A function of the compiler context, run on the module of the builder.\<close>

definition on_mod :: "'a comp \<Rightarrow> 'a bcomp" where
  "on_mod f b = (case f (bmod b) of
                   OutOfFuel \<Rightarrow> OutOfFuel
                 | Panics e \<Rightarrow> Panics e
                 | Ok a m \<Rightarrow> Ok a (b\<lparr>bmod := m\<rparr>))"

text \<open>
  \<^verbatim>\<open>extractValueFromInterface\<close>; \<^verbatim>\<open>emitPointerUnpack\<close> is one instruction here.
\<close>

definition extractValueFromInterface :: "llvalue \<Rightarrow> lltype \<Rightarrow> llvalue bcomp" where
  "extractValueFromInterface itf llvmType =
     bind (emit (ExtractValue itf 1 ''typeassert.value.ptr'')) (\<lambda>valuePtr.
       emit (PointerUnpack valuePtr llvmType))"

text \<open>
  A type assert (\<^verbatim>\<open>*ssa.TypeAssert\<close>); \<open>X\<close> is the LLVM value of the operand
  (\<^verbatim>\<open>b.getValue(expr.X)\<close>).
\<close>

record TypeAssert =
  X :: llvalue
  AssertedType :: gtype
  CommaOk :: bool

definition assertedTypeCodeGlobal :: "compilerContext \<Rightarrow> gtype \<Rightarrow> llvalue comp" where
  "assertedTypeCodeGlobal c t =
     bind (lift (getTypeCodeName c t)) (\<lambda>name m.
       let globalName = ''reflect/types.typeid:'' @ name in
       case NamedGlobal m globalName of
         Some g \<Rightarrow> Ok (GlobalRef g) m
       | None \<Rightarrow>
           bind (AddGlobal (IntType 8) globalName (\<lambda>g. g\<lparr>GlobalConstant := True\<rparr>))
             (\<lambda>g. ret (GlobalRef g)) m)"

definition createTypeAssert :: "compilerContext \<Rightarrow> TypeAssert \<Rightarrow> llvalue bcomp" where
  "createTypeAssert c expr =
     (let itf = X expr;
          assertedType = LLVMType (AssertedType expr) in
      bind (emit (ExtractValue itf 0 ''interface.type'')) (\<lambda>actualTypeNum.
      bind (if isInterface (Underlying c (AssertedType expr))
            then bind (on_mod (getInterfaceImplementsFunc c (AssertedType expr))) (\<lambda>fn.
                   emit (Call fn [actualTypeNum] []))
            else bind (on_mod (assertedTypeCodeGlobal c (AssertedType expr))) (\<lambda>g.
                   emit (RuntimeCall ''typeAssert'' [actualTypeNum, g] ''typecode'')))
        (\<lambda>commaOk.
      bind GetInsertBlock (\<lambda>prevBlock.
      bind (insertBasicBlock ''typeassert.ok'') (\<lambda>okBlock.
      bind (insertBasicBlock ''typeassert.next'') (\<lambda>nextBlock.
      bind (setBlockExit nextBlock) (\<lambda>u.
      bind (emit (CondBr commaOk okBlock nextBlock)) (\<lambda>u.
      bind (SetInsertPointAtEnd okBlock) (\<lambda>u.
      bind (if isInterface (Underlying c (AssertedType expr))
            then ret itf
            else extractValueFromInterface itf assertedType) (\<lambda>valueOk.
      bind (emit (Br nextBlock)) (\<lambda>u.
      bind (SetInsertPointAtEnd nextBlock) (\<lambda>u.
      bind (emit (PHI assertedType ''typeassert.value''
                    [(ConstNull assertedType, prevBlock), (valueOk, okBlock)])) (\<lambda>phi.
        if CommaOk expr
        then (let tuple = ConstStruct [Undef assertedType, Undef (IntType 1)] in
              bind (emit (InsertValue tuple phi 0)) (\<lambda>tuple.
                emit (InsertValue tuple commaOk 1)))
        else bind (emit (RuntimeCall ''interfaceTypeAssert'' [commaOk] [])) (\<lambda>u.
               ret phi))))))))))))))"

section \<open>The runtime's reader of struct field data\<close>





section \<open>The runtime's reading of the meta byte\<close>




section \<open>Properties of modules\<close>

text \<open>No two globals of the module have the same name.\<close>

definition unique_names :: "llmodule \<Rightarrow> bool" where
  "unique_names m = distinct (map GName (filter (\<lambda>g. \<not> Renamed g) (globals m)))"

text \<open>
  \<open>ext m m'\<close>: the globals of \<open>m\<close> are, unchanged and in the same places, the first
  globals of \<open>m'\<close>, and \<open>m'\<close> has unique names if \<open>m\<close> has.
\<close>

definition ext :: "llmodule \<Rightarrow> llmodule \<Rightarrow> bool" where
  "ext m m' = (prefix (globals m) (globals m') \<and> (unique_names m \<longrightarrow> unique_names m'))"

definition grows :: "'a comp \<Rightarrow> bool" where
  "grows f = (\<forall>m v m'. f m = Ok v m' \<longrightarrow> ext m m')"

section \<open>A small program for examples\<close>

text \<open>
  Two named pointer types that refer to each other (\<^verbatim>\<open>type A *B; type B *A\<close>), a
  named integer type \<^verbatim>\<open>main.T\<close> with one method \<^verbatim>\<open>String() string\<close> on a value
  receiver, and the interfaces \<^verbatim>\<open>io.Reader\<close>, \<^verbatim>\<open>io.Closer\<close> and \<^verbatim>\<open>error\<close>. A name
  is exported here when its first byte is an upper-case ASCII letter.
\<close>

definition example_String :: "Func_obj \<times> gtype" where
  "example_String = (Func ''String'' ''main'', Signature (Some ''main'') [] [Basic String] False)"

definition example_Read :: "Func_obj \<times> gtype" where
  "example_Read =
     (Func ''Read'' ''io'',
      Signature (Some ''io'') [Slice (Basic Uint8)] [Basic IntKind, Named ''error''] False)"

definition example_Close :: "Func_obj \<times> gtype" where
  "example_Close = (Func ''Close'' ''io'', Signature (Some ''io'') [] [Named ''error''] False)"

definition example_Error :: "Func_obj \<times> gtype" where
  "example_Error = (Func ''Error'' [], Signature (Some []) [] [Basic String] False)"

definition example_context :: compilerContext where
  "example_context =
     \<lparr> decls = [(''A'', Pointer (Named ''B'')), (''B'', Pointer (Named ''A'')),
                (''main.T'', Basic IntKind),
                (''io.Reader'', Interface [example_Read]),
                (''io.Closer'', Interface [example_Close]),
                (''error'', Interface [example_Error])],
       TypeString = (\<lambda>t. case t of Named n \<Rightarrow> n | Pointer (Named n) \<Rightarrow> ''*'' @ n | _ \<Rightarrow> ''T''),
       IsExported = (\<lambda>s. case s of [] \<Rightarrow> False
                          | ch # r \<Rightarrow> (65 :: nat) \<le> of_char ch \<and> of_char ch \<le> (90 :: nat)),
       Quote = (\<lambda>s. [CHR 0x22] @ s @ [CHR 0x22]),
       MethodSets = (\<lambda>t. case t of
                        Named n \<Rightarrow> (if n = ''main.T'' then [example_String]
                                    else if n = ''io.Reader'' then [example_Read]
                                    else if n = ''io.Closer'' then [example_Close]
                                    else if n = ''error'' then [example_Error] else [])
                      | Interface ms \<Rightarrow> ms
                      | _ \<Rightarrow> []),
       MethodValue = (\<lambda>method. \<lparr> linkName = ''main.T.'' @ Name (fst method),
                                 RecvType = Named ''main.T'' \<rparr>),
       getFunction = (\<lambda>fn. ((LLVMType (Basic String), [LLVMType (RecvType fn), I8Ptr]),
                             Some (linkName fn))),
       expandFormalParamType = (\<lambda>t. [t]),
       IsPointerTypeKind = (\<lambda>t. case t of I8Ptr \<Rightarrow> True | LLVMType (Pointer e) \<Rightarrow> True
                                 | _ \<Rightarrow> False),
       IsVoidTypeKind = (\<lambda>t. case t of VoidType \<Rightarrow> True | _ \<Rightarrow> False),
       TypeAllocSize = (\<lambda>t. 8),
       Debug = False \<rparr>"

definition empty_module :: llmodule where
  "empty_module = \<lparr> globals = [], funcs = [] \<rparr>"

section \<open>Lemmas about the state of the module\<close>

lemma bind_Ok: "bind f g m = Ok v m' \<longleftrightarrow> (\<exists>a m1. f m = Ok a m1 \<and> g a m1 = Ok v m')"
  by (simp add: bind_def split: result.splits)

lemma lift_Ok: "lift r m = Ok v m' \<longleftrightarrow> r = Inr v \<and> m' = m"
  by (auto simp: lift_def split: sum.splits)

lemma ret_Ok: "ret a m = Ok v m' \<longleftrightarrow> v = a \<and> m' = m"
  by (auto simp: ret_def)

lemma panic_Ok: "panic s m \<noteq> Ok v m'"
  by (simp add: panic_def)

lemma ext_refl: "ext m m"
  by (simp add: ext_def)

lemma ext_trans: "ext m m1 \<Longrightarrow> ext m1 m2 \<Longrightarrow> ext m m2"
  by (auto simp: ext_def)

lemma grows_ret: "grows (ret a)"
  by (simp add: grows_def ret_Ok ext_refl)

lemma grows_lift: "grows (lift r)"
  by (simp add: grows_def lift_Ok ext_refl)

lemma grows_panic: "grows (panic s)"
  by (simp add: grows_def panic_Ok)

lemma grows_bind: "grows f \<Longrightarrow> (\<And>a. grows (g a)) \<Longrightarrow> grows (bind f g)"
  unfolding grows_def bind_Ok by (blast intro: ext_trans)

lemma lookup_idx_None: "lookup_idx P xs = None \<longleftrightarrow> (\<forall>x \<in> set xs. \<not> P x)"
  by (induction xs) auto

lemma lookup_idx_Some: "lookup_idx P xs = Some i \<Longrightarrow> i < length xs \<and> P (xs ! i)"
  by (induction xs arbitrary: i) (auto split: if_splits)

lemma lookup_idx_append:
  "lookup_idx P xs = Some i \<Longrightarrow> lookup_idx P (xs @ ys) = Some i"
  by (induction xs arbitrary: i) (auto split: if_splits)

lemma lookup_idx_new:
  "lookup_idx P xs = None \<Longrightarrow> P y \<Longrightarrow> lookup_idx P (xs @ y # ys) = Some (length xs)"
  by (induction xs) (auto split: if_splits)

lemma NamedGlobal_None:
  "NamedGlobal m name = None \<longleftrightarrow>
     name \<notin> set (map GName (filter (\<lambda>g. \<not> Renamed g) (globals m)))"
  by (auto simp: NamedGlobal_def lookup_idx_None)

lemma grows_AddGlobal:
  assumes "\<And>g. GName (init g) = GName g \<and> Renamed (init g) = Renamed g"
  shows "grows (AddGlobal ty name init)"
  using assms
  by (auto simp: grows_def AddGlobal_def ext_def unique_names_def new_global_def NamedGlobal_None)


lemma grows_Ok: "grows (\<lambda>m. Ok a m)"
  by (simp add: grows_def ext_refl)

lemma grows_memo:
  "(\<And>h. grows (f h)) \<Longrightarrow> grows g \<Longrightarrow>
   grows (\<lambda>m. case NamedGlobal m name of Some h \<Rightarrow> f h m | None \<Rightarrow> g m)"
  by (auto simp: grows_def split: option.splits)

lemma grows_getMethodSignature: "grows (getMethodSignature c method)"
  unfolding getMethodSignature_def
  by (intro grows_bind grows_lift grows_memo grows_Ok grows_AddGlobal grows_ret) simp

lemma grows_getInterfaceInvokeWrapper: "grows (getInterfaceInvokeWrapper c fn ty llvmFn)"
  by (auto simp: grows_def getInterfaceInvokeWrapper_def Let_def AddFunction_def ext_def
      unique_names_def split: option.splits if_splits)

lemma grows_methodSetEntries: "grows (methodSetEntries c ms)"
proof (induction ms)
  case Nil
  show ?case by (simp add: grows_ret)
next
  case (Cons meth rest)
  have w: "grows (case snd (getFunction c fn) of
                  None \<Rightarrow> panic s
                | Some llvmFn \<Rightarrow> getInterfaceInvokeWrapper c fn ty llvmFn)" for fn s ty
    by (cases "snd (getFunction c fn)") (simp_all add: grows_panic grows_getInterfaceInvokeWrapper)
  show ?case
    unfolding methodSetEntries.simps Let_def
    by (intro grows_bind grows_getMethodSignature w Cons.IH grows_ret)
qed

lemma grows_structFields:
  assumes "\<And>t. grows (rec t)"
  shows "grows (structFields rec c globalName fs)"
proof (induction fs)
  case Nil
  show ?case by (simp add: grows_ret)
next
  case (Cons ft rest)
  show ?case
    unfolding structFields.simps Let_def
    by (intro grows_bind grows_AddGlobal assms Cons.IH grows_ret) simp_all
qed

lemma grows_typeFields:
  assumes "\<And>t. grows (rec t)"
  shows "grows (typeFields rec c globalName typ)"
proof (cases "typ")
  case (Struct fs)
  then show ?thesis
    unfolding typeFields_def
    by (simp del: structFields.simps) (intro grows_bind assms grows_ret grows_structFields)
qed (simp_all add: typeFields_def grows_bind assms grows_ret)

lemma growsD: "grows f \<Longrightarrow> f m = Ok v m' \<Longrightarrow> ext m m'"
  by (simp add: grows_def)

lemma grows_getTypeMethodSet: "grows (getTypeMethodSet c typ)"
  unfolding grows_def
proof (intro allI impI)
  fix m v m'
  assume r: "getTypeMethodSet c typ m = Ok v m'"
  show "ext m m'"
  proof (cases "NamedGlobal m (TypeString c typ @ ''$methodset'')")
    case (Some h)
    with r show ?thesis by (simp add: getTypeMethodSet_def ext_refl)
  next
    case None
    with r obtain sw m1 h where
      a: "methodSetEntries c (MethodSets c typ) m = Ok sw m1" and
      b: "AddGlobal (TypeOf (ConstStruct
                   [ConstInt UintptrType (length (MethodSets c typ)),
                    ConstArray I8Ptr (fst sw), ConstStruct (snd sw)]))
             (TypeString c typ @ ''$methodset'')
             (\<lambda>g. g\<lparr>Initializer := Some (ConstStruct
                   [ConstInt UintptrType (length (MethodSets c typ)),
                    ConstArray I8Ptr (fst sw), ConstStruct (snd sw)]),
                 GlobalConstant := True, UnnamedAddr := True,
                 Linkage := LinkOnceODRLinkage\<rparr>) m1 = Ok h m'"
      by (auto simp: getTypeMethodSet_def Let_def bind_Ok ret_Ok)
    have "ext m m1" by (rule growsD [OF grows_methodSetEntries a])
    moreover have "ext m1 m'"
      by (rule growsD [OF grows_AddGlobal b]) simp
    ultimately show ?thesis by (rule ext_trans)
  qed
qed

lemma getTypeCode_body_Ok:
  assumes "getTypeCode_body rec c typ m = Ok v m'"
  shows "\<exists>name. getTypeCodeName c typ = Inr name \<and>
     (case NamedGlobal m (typeGlobalName name) of
        Some h \<Rightarrow> v = ConstGEP h [0, if hasMethodSet c typ then 1 else 0] \<and> m' = m
      | None \<Rightarrow>
         (\<exists>kind tf m2 tf2 m3.
            getTypeKind c typ = Inr kind \<and>
            typeFields rec c (typeGlobalName name) typ
              (m\<lparr>globals := globals m @
                 [new_global m (LLVMType (Struct (typeFieldTypes c typ)))
                    (typeGlobalName name)]\<rparr>) = Ok tf m2 \<and>
            (if hasMethodSet c typ
             then bind (getTypeMethodSet c typ) (\<lambda>methodSet.
                    ret (ConstBitCast methodSet I8Ptr #
                         ConstInt (IntType 8) (unat (metabyte_of typ kind)) # tf))
             else ret (ConstInt (IntType 8) (unat (metabyte_of typ kind)) # tf)) m2 = Ok tf2 m3 \<and>
            m' = m3\<lparr>globals := (globals m3)[length (globals m) :=
                    descriptor_init c typ tf2 (globals m3 ! length (globals m))]\<rparr> \<and>
            v = ConstGEP (length (globals m)) [0, if hasMethodSet c typ then 1 else 0]))"
  using assms
  unfolding getTypeCode_body_def Let_def bind_Ok lift_Ok ret_Ok
  apply (elim exE conjE)
  subgoal for name m1 h m2
    apply (rule exI [of _ name])
    apply (cases "NamedGlobal m (typeGlobalName name)")
     apply (simp_all add: bind_Ok lift_Ok ret_Ok AddGlobal_def update_global_def descriptor_init_def)
    apply (elim exE conjE)
    apply (auto simp: bind_Ok ret_Ok split: if_splits)
    done
  done

lemma names_update:
  assumes "\<And>g. GName (f g) = GName g \<and> Renamed (f g) = Renamed g"
  shows "map (\<lambda>g. (GName g, Renamed g)) (xs[i := f (xs ! i)]) = map (\<lambda>g. (GName g, Renamed g)) xs"
proof (rule nth_equalityI)
  fix j assume "j < length (map (\<lambda>g. (GName g, Renamed g)) (xs[i := f (xs ! i)]))"
  then show "map (\<lambda>g. (GName g, Renamed g)) (xs[i := f (xs ! i)]) ! j =
             map (\<lambda>g. (GName g, Renamed g)) xs ! j"
    using assms [of "xs ! i"] by (cases "i = j") simp_all
qed simp

lemma unique_names_alt:
  "unique_names m =
     distinct (map fst (filter (\<lambda>p. \<not> snd p) (map (\<lambda>g. (GName g, Renamed g)) (globals m))))"
  by (simp add: unique_names_def filter_map comp_def)

lemma unique_names_update:
  assumes "\<And>g. GName (f g) = GName g \<and> Renamed (f g) = Renamed g"
  shows "unique_names (m\<lparr>globals := (globals m)[i := f (globals m ! i)]\<rparr>) = unique_names m"
  unfolding unique_names_alt by (simp add: names_update [of f, OF assms])

lemma NamedGlobal_alt:
  "NamedGlobal m name =
     lookup_idx (\<lambda>p. fst p = name \<and> \<not> snd p) (map (\<lambda>g. (GName g, Renamed g)) (globals m))"
proof -
  have "lookup_idx (\<lambda>p. P (f p)) xs = lookup_idx P (map f xs)" for P and f :: "global \<Rightarrow> string \<times> bool" and xs
    by (induction xs) auto
  from this [of "\<lambda>p. fst p = name \<and> \<not> snd p" "\<lambda>g. (GName g, Renamed g)"]
  show ?thesis by (simp add: NamedGlobal_def)
qed

lemma NamedGlobal_update:
  assumes "\<And>g. GName (f g) = GName g \<and> Renamed (f g) = Renamed g"
  shows "NamedGlobal (m\<lparr>globals := (globals m)[i := f (globals m ! i)]\<rparr>) name = NamedGlobal m name"
  unfolding NamedGlobal_alt by (simp add: names_update [of f, OF assms])

lemma prefix_update:
  "prefix xs ys \<Longrightarrow> prefix xs (ys[length xs := v])"
  by (auto simp: prefix_def list_update_append)

lemma descriptor_init_names:
  "GName (descriptor_init c typ vs g) = GName g \<and> Renamed (descriptor_init c typ vs g) = Renamed g"
  by (simp add: descriptor_init_def)

lemma ext_update:
  assumes "ext m m3"
  shows "ext m (m3\<lparr>globals := (globals m3)[length (globals m) :=
                    descriptor_init c typ vs (globals m3 ! length (globals m))]\<rparr>)"
  using assms unique_names_update [of "descriptor_init c typ vs" m3 "length (globals m)",
      OF descriptor_init_names]
  by (simp add: ext_def prefix_update)

lemma grows_methodSet_part:
  "grows (if b then bind (getTypeMethodSet c typ) (\<lambda>methodSet. ret (k methodSet)) else ret x)"
  by (simp add: grows_bind grows_getTypeMethodSet grows_ret)

lemma ext_AddGlobal_id:
  "ext m (m\<lparr>globals := globals m @ [new_global m ty name]\<rparr>)"
  using growsD [OF grows_AddGlobal [of id ty name], of m]
  by (simp add: AddGlobal_def)

text \<open>What a call that makes a new descriptor leaves in the module.\<close>

lemma getTypeCode_body_fresh:
  assumes run: "getTypeCode_body rec c typ m = Ok v m'"
    and rec: "\<And>t. grows (rec t)"
    and name: "getTypeCodeName c typ = Inr name"
    and fresh: "NamedGlobal m (typeGlobalName name) = None"
  shows "\<exists>kind tf ms.
           getTypeKind c typ = Inr kind \<and>
           v = ConstGEP (length (globals m)) [0, if hasMethodSet c typ then 1 else 0] \<and>
           length (globals m) < length (globals m') \<and>
           ext m m' \<and>
           globals m' ! length (globals m) =
             descriptor_init c typ
               ((if hasMethodSet c typ then [ConstBitCast ms I8Ptr] else []) @
                 ConstInt (IntType 8) (unat (metabyte_of typ kind)) # tf)
               (new_global m (LLVMType (Struct (typeFieldTypes c typ))) (typeGlobalName name))"
proof -
  let ?L = "length (globals m)"
  let ?g0 = "new_global m (LLVMType (Struct (typeFieldTypes c typ))) (typeGlobalName name)"
  let ?m1 = "m\<lparr>globals := globals m @ [?g0]\<rparr>"
  from getTypeCode_body_Ok [OF run] name fresh
  obtain kind tf m2 tf2 m3 where
    kind: "getTypeKind c typ = Inr kind" and
    tf: "typeFields rec c (typeGlobalName name) typ ?m1 = Ok tf m2" and
    ms: "(if hasMethodSet c typ
             then bind (getTypeMethodSet c typ) (\<lambda>methodSet.
                    ret (ConstBitCast methodSet I8Ptr #
                         ConstInt (IntType 8) (unat (metabyte_of typ kind)) # tf))
             else ret (ConstInt (IntType 8) (unat (metabyte_of typ kind)) # tf)) m2 = Ok tf2 m3" and
    m': "m' = m3\<lparr>globals := (globals m3)[?L := descriptor_init c typ tf2 (globals m3 ! ?L)]\<rparr>" and
    v: "v = ConstGEP ?L [0, if hasMethodSet c typ then 1 else 0]"
    by auto
  have e01: "ext m ?m1" by (rule ext_AddGlobal_id)
  have e12: "ext ?m1 m2" by (rule growsD [OF grows_typeFields tf]) (rule rec)
  have e23: "ext m2 m3" by (rule growsD [OF grows_methodSet_part ms])
  have e13: "ext ?m1 m3" by (rule ext_trans [OF e12 e23])
  have e03: "ext m m3" by (rule ext_trans [OF e01 e13])
  from e13 obtain zs where zs: "globals m3 = (globals m @ [?g0]) @ zs"
    by (auto simp: ext_def prefix_def)
  then have at: "globals m3 ! ?L = ?g0" and len: "?L < length (globals m3)"
    by (simp_all add: nth_append)
  from ms obtain msv where tf2: "tf2 = (if hasMethodSet c typ then [ConstBitCast msv I8Ptr] else []) @
                 ConstInt (IntType 8) (unat (metabyte_of typ kind)) # tf"
    by (auto simp: bind_Ok ret_Ok split: if_splits)
  have "ext m m'" unfolding m' by (rule ext_update [OF e03])
  moreover have "globals m' ! ?L = descriptor_init c typ tf2 ?g0"
    using len by (simp add: m' at)
  moreover have "?L < length (globals m')" using len by (simp add: m')
  ultimately show ?thesis using kind v tf2 by blast
qed

lemma grows_getTypeCode_body:
  assumes rec: "\<And>t. grows (rec t)"
  shows "grows (getTypeCode_body rec c typ)"
  unfolding grows_def
proof (intro allI impI)
  fix m v m'
  assume run: "getTypeCode_body rec c typ m = Ok v m'"
  from getTypeCode_body_Ok [OF run] obtain name where
    name: "getTypeCodeName c typ = Inr name" and
    cs: "NamedGlobal m (typeGlobalName name) \<noteq> None \<longrightarrow> m' = m"
    by (auto split: option.splits)
  show "ext m m'"
  proof (cases "NamedGlobal m (typeGlobalName name)")
    case None
    from getTypeCode_body_fresh [OF run rec name None] show ?thesis by blast
  next
    case (Some h)
    with cs show ?thesis by (simp add: ext_refl)
  qed
qed

lemma grows_getTypeCode: "grows (getTypeCode n c typ)"
proof (induction n arbitrary: "typ")
  case 0
  show ?case by (simp add: grows_def)
next
  case (Suc n)
  show ?case by (simp add: grows_getTypeCode_body Suc.IH)
qed

lemma getTypeCode_fresh:
  assumes run: "getTypeCode n c typ m = Ok v m'"
    and name: "getTypeCodeName c typ = Inr name"
    and fresh: "NamedGlobal m (typeGlobalName name) = None"
  shows "\<exists>kind tf ms.
           getTypeKind c typ = Inr kind \<and>
           v = ConstGEP (length (globals m)) [0, if hasMethodSet c typ then 1 else 0] \<and>
           length (globals m) < length (globals m') \<and>
           ext m m' \<and>
           globals m' ! length (globals m) =
             descriptor_init c typ
               ((if hasMethodSet c typ then [ConstBitCast ms I8Ptr] else []) @
                 ConstInt (IntType 8) (unat (metabyte_of typ kind)) # tf)
               (new_global m (LLVMType (Struct (typeFieldTypes c typ))) (typeGlobalName name))"
proof (cases n)
  case 0
  with run show ?thesis by simp
next
  case (Suc k)
  with run have "getTypeCode_body (\<lambda>t. getTypeCode k c t) c typ m = Ok v m'" by simp
  from getTypeCode_body_fresh [OF this grows_getTypeCode name fresh] show ?thesis .
qed








section \<open>C1: the meta byte\<close>


section \<open>C2: one descriptor for a type\<close>

lemma filter_distinct_one:
  "distinct (map f ys) \<Longrightarrow> y \<in> set ys \<Longrightarrow> length (filter (\<lambda>z. f z = f y) ys) = 1"
proof (induction ys)
  case Nil
  then show ?case by simp
next
  case (Cons a ys)
  show ?case
  proof (cases "f a = f y")
    case True
    with Cons.prems have "f y \<notin> f ` set ys" by simp
    then have "\<forall>z \<in> set ys. f z \<noteq> f y" by (metis imageI)
    then have "filter (\<lambda>z. f z = f y) ys = []" by (simp add: filter_empty_conv)
    with True show ?thesis by simp
  next
    case False
    with Cons show ?thesis by auto
  qed
qed

lemma NamedGlobal_Some_count:
  assumes "unique_names m" and "NamedGlobal m name = Some h"
  shows "length (filter (\<lambda>g. GName g = name \<and> \<not> Renamed g) (globals m)) = 1"
proof -
  from lookup_idx_Some [OF assms(2) [unfolded NamedGlobal_def]]
  have h: "h < length (globals m)" "GName (globals m ! h) = name" "\<not> Renamed (globals m ! h)"
    by auto
  let ?ys = "filter (\<lambda>g. \<not> Renamed g) (globals m)"
  have "globals m ! h \<in> set ?ys" using h by simp
  from filter_distinct_one [OF assms(1) [unfolded unique_names_def] this]
  have "length (filter (\<lambda>z. GName z = name) ?ys) = 1" by (simp add: h)
  moreover have "filter (\<lambda>z. GName z = name) ?ys =
                 filter (\<lambda>g. GName g = name \<and> \<not> Renamed g) (globals m)"
    by (simp add: conj_commute)
  ultimately show ?thesis by simp
qed

lemma getTypeCode_found:
  assumes "getTypeCodeName c typ = Inr name" and "NamedGlobal m (typeGlobalName name) = Some h"
  shows "getTypeCode (Suc k) c typ m = Ok (ConstGEP h [0, if hasMethodSet c typ then 1 else 0]) m"
  using assms by (simp add: getTypeCode_body_def bind_def lift_def ret_def Let_def)

text \<open>After a call that returned, the descriptor is found under its name.\<close>

lemma getTypeCode_registers:
  assumes run: "getTypeCode n c typ m = Ok v m'"
  shows "\<exists>name h. getTypeCodeName c typ = Inr name \<and>
           NamedGlobal m' (typeGlobalName name) = Some h \<and>
           v = ConstGEP h [0, if hasMethodSet c typ then 1 else 0]"
proof (cases n)
  case 0
  with run show ?thesis by simp
next
  case (Suc k)
  with run have body: "getTypeCode_body (\<lambda>t. getTypeCode k c t) c typ m = Ok v m'" by simp
  from getTypeCode_body_Ok [OF body] obtain name where
    name: "getTypeCodeName c typ = Inr name" and
    cs: "\<And>h. NamedGlobal m (typeGlobalName name) = Some h \<Longrightarrow>
           v = ConstGEP h [0, if hasMethodSet c typ then 1 else 0] \<and> m' = m"
    by (auto split: option.splits)
  show ?thesis
  proof (cases "NamedGlobal m (typeGlobalName name)")
    case (Some h)
    with cs [OF Some] name show ?thesis by auto
  next
    case None
    let ?L = "length (globals m)"
    from getTypeCode_fresh [OF run name None] obtain kind tf ms where
      v: "v = ConstGEP ?L [0, if hasMethodSet c typ then 1 else 0]" and
      len: "?L < length (globals m')" and
      e: "ext m m'" and
      g: "globals m' ! ?L =
             descriptor_init c typ
               ((if hasMethodSet c typ then [ConstBitCast ms I8Ptr] else []) @
                 ConstInt (IntType 8) (unat (metabyte_of typ kind)) # tf)
               (new_global m (LLVMType (Struct (typeFieldTypes c typ))) (typeGlobalName name))"
      by blast
    from e obtain zs where zs: "globals m' = globals m @ zs" by (auto simp: ext_def prefix_def)
    with len obtain z zs' where z: "zs = z # zs'" by (cases zs) auto
    have "z = globals m' ! ?L" by (simp add: zs z)
    then have zn: "GName z = typeGlobalName name \<and> \<not> Renamed z"
      using None by (simp add: g descriptor_init_def new_global_def)
    have "lookup_idx (\<lambda>g. GName g = typeGlobalName name \<and> \<not> Renamed g) (globals m @ z # zs') = Some ?L"
      by (rule lookup_idx_new) (use None zn in \<open>simp_all add: NamedGlobal_def\<close>)
    then have "NamedGlobal m' (typeGlobalName name) = Some ?L"
      by (simp add: NamedGlobal_def zs z)
    with name v show ?thesis by blast
  qed
qed

text \<open>
  Claim C2. Descriptors are remembered under the name \<^verbatim>\<open>reflect/types.type:\<close> followed
  by the type's name of \<^verbatim>\<open>getTypeCodeName\<close>. After a call of \<^verbatim>\<open>getTypeCode\<close> for a
  type has returned an address, a second call for the same type returns the same
  address and leaves the module as it is; and, in a module whose globals had unique
  names before the first call, exactly one global has the descriptor's name.
\<close>

theorem getTypeCode_memoized:
  assumes "getTypeCode n c typ m = Ok v m'" and "unique_names m"
  shows "getTypeCode (Suc k) c typ m' = Ok v m' \<and>
         (\<exists>name h off.
            getTypeCodeName c typ = Inr name \<and>
            v = ConstGEP h [0, off] \<and>
            NamedGlobal m' (''reflect/types.type:'' @ name) = Some h \<and>
            length (filter (\<lambda>g. GName g = ''reflect/types.type:'' @ name \<and> \<not> Renamed g)
                      (globals m')) = 1)"
proof -
  from getTypeCode_registers [OF assms(1)] obtain name h where
    name: "getTypeCodeName c typ = Inr name" and
    found: "NamedGlobal m' (typeGlobalName name) = Some h" and
    v: "v = ConstGEP h [0, if hasMethodSet c typ then 1 else 0]"
    by blast
  have "ext m m'" by (rule growsD [OF grows_getTypeCode assms(1)])
  with assms(2) have u: "unique_names m'" by (simp add: ext_def)
  have again: "getTypeCode (Suc k) c typ m' = Ok v m'"
    unfolding v by (rule getTypeCode_found [OF name found])
  have one: "length (filter (\<lambda>g. GName g = typeGlobalName name \<and> \<not> Renamed g) (globals m')) = 1"
    by (rule NamedGlobal_Some_count [OF u found])
  from again name v found one show ?thesis
    unfolding typeGlobalName_def by blast
qed

theorem getTypeCode_memoized_witness:
  "\<exists>m'. getTypeCode 4 example_context (Named ''A'') empty_module = Ok (ConstGEP 0 [0, 0]) m'
      \<and> unique_names empty_module
      \<and> getTypeCode 1 example_context (Named ''A'') m' = Ok (ConstGEP 0 [0, 0]) m'
      \<and> NamedGlobal m' ''reflect/types.type:named:A'' = Some 0
      \<and> length (filter (\<lambda>g. GName g = ''reflect/types.type:named:A'' \<and> \<not> Renamed g)
                   (globals m')) = 1"
proof -
  have "(case getTypeCode 4 example_context (Named ''A'') empty_module of
          Ok v m' \<Rightarrow> v = ConstGEP 0 [0, 0] | _ \<Rightarrow> False)"
    by code_simp
  then obtain m' where run:
    "getTypeCode 4 example_context (Named ''A'') empty_module = Ok (ConstGEP 0 [0, 0]) m'"
    by (auto split: result.splits)
  have u: "unique_names empty_module" by (simp add: unique_names_def empty_module_def)
  have name: "getTypeCodeName example_context (Named ''A'') = Inr ''named:A''"
    by (simp add: example_context_def)
  from getTypeCode_memoized [OF run u, of 0] name
  have "getTypeCode 1 example_context (Named ''A'') m' = Ok (ConstGEP 0 [0, 0]) m'
      \<and> NamedGlobal m' ''reflect/types.type:named:A'' = Some 0
      \<and> length (filter (\<lambda>g. GName g = ''reflect/types.type:named:A'' \<and> \<not> Renamed g)
                   (globals m')) = 1"
    by auto
  with run u show ?thesis by blast
qed
section \<open>C3: the address of a descriptor\<close>



section \<open>C5: names of types that are not identical\<close>

text \<open>
  Claim C5 says that \<^verbatim>\<open>getTypeCodeName\<close> gives two types the same name only if they
  are identical. The code does not do that: the name of a channel type leaves out the
  direction, so the send-only and the receive-only channel of \<^verbatim>\<open>int\<close> (two types
  that are not identical) both get \<^verbatim>\<open>chan:basic:int\<close>, while \<^verbatim>\<open>typestring\<close>, the
  sibling function, tells them apart. In the same way a tag is written between
  backquotes without quoting (\<^verbatim>\<open>typestring\<close> quotes it), so a struct with one field
  whose tag holds a backquote can get the name of a struct with two fields; and a
  variadic signature gets the name of the signature with a slice parameter.
\<close>

theorem getTypeCodeName_collisions:
  "getTypeCodeName c (Chan SendOnly (Basic IntKind)) = Inr ''chan:basic:int''
   \<and> getTypeCodeName c (Chan RecvOnly (Basic IntKind)) = Inr ''chan:basic:int''
   \<and> Chan SendOnly (Basic IntKind) \<noteq> Chan RecvOnly (Basic IntKind)
   \<and> typestring c (Chan SendOnly (Basic IntKind)) = Inr ''chan<- (int)''
   \<and> typestring c (Chan RecvOnly (Basic IntKind)) = Inr ''<-chan (int)''
   \<and> getTypeCodeName c
         (Struct [(Field ''A'' False (''x'' @ [CHR 0x60] @ '',B:basic:int'' @ [CHR 0x60] @ ''y''),
                   Basic IntKind)])
       = getTypeCodeName c
           (Struct [(Field ''A'' False ''x'', Basic IntKind), (Field ''B'' False ''y'', Basic IntKind)])
   \<and> getTypeCodeName c (Signature None [Slice (Basic IntKind)] [] True)
       = getTypeCodeName c (Signature None [Slice (Basic IntKind)] [] False)"
  by (simp add: bindE_def)
section \<open>C7: the function of a type assert on an interface\<close>



section \<open>C8: the thunk of an interface call\<close>







section \<open>C10: the data of a struct field, written and read\<close>



end
